theory Spec2Isabelle
  imports Main
begin

section \<open>JavaScript values\<close>

text \<open>
  A JavaScript string is a \<open>string\<close>: one \<open>char\<close> stands for one code unit, so
  \<open>substring(0, n)\<close> is \<open>take n\<close>. A value of type \<open>string | null | undefined\<close> is a
  \<open>string option\<close>; it is truthy when it is present and not the empty string. A thrown
  exception is a value of type \<open>error\<close>, and a function that may throw returns
  \<open>error + 'a\<close>.
\<close>

datatype error = TypeError string | Error string

definition truthy :: "string option \<Rightarrow> bool" where
  "truthy v = (case v of None \<Rightarrow> False | Some s \<Rightarrow> s \<noteq> [])"

text \<open>\<open>a || b\<close> on two such values.\<close>

definition orElse :: "string option \<Rightarrow> string option \<Rightarrow> string option" where
  "orElse a b = (if truthy a then a else b)"

text \<open>\<open>a || "literal"\<close>.\<close>

definition orDefault :: "string option \<Rightarrow> string \<Rightarrow> string" where
  "orDefault a d = (case a of None \<Rightarrow> d | Some s \<Rightarrow> if s = [] then d else s)"

text \<open>\<open>if (v) { xs.push(f(v)) }\<close>: what is pushed when \<open>v\<close> is tested for truthiness.\<close>

definition pushIf :: "string option \<Rightarrow> (string \<Rightarrow> 'a) \<Rightarrow> 'a list" where
  "pushIf v f = (case v of None \<Rightarrow> [] | Some s \<Rightarrow> if s = [] then [] else [f s])"

fun startsWith :: "string \<Rightarrow> string \<Rightarrow> bool" where
  "startsWith s [] = True"
| "startsWith [] (p # ps) = False"
| "startsWith (c # cs) (p # ps) = (c = p \<and> startsWith cs ps)"

text \<open>\<open>String.prototype.includes\<close>.\<close>

fun str_includes :: "string \<Rightarrow> string \<Rightarrow> bool" where
  "str_includes [] p = (p = [])"
| "str_includes (c # cs) p = (startsWith (c # cs) p \<or> str_includes cs p)"

text \<open>
  The string literals of the sources that are outside ASCII, as the bytes the source files
  hold. Nothing below depends on what they are.
\<close>

definition nl :: string where "nl = [CHR 0x0A]"

definition slack_check :: string where "slack_check = [CHR 0xE2, CHR 0x9C, CHR 0x85]"
definition slack_cross :: string where "slack_cross = [CHR 0xE2, CHR 0x9D, CHR 0x8C]"
definition slack_warning :: string where
  "slack_warning = [CHR 0xE2, CHR 0x9A, CHR 0xA0, CHR 0xEF, CHR 0xB8, CHR 0x8F]"
definition slack_speaker :: string where
  "slack_speaker = [CHR 0xF0, CHR 0x9F, CHR 0x93, CHR 0xA2]"

definition log_tick :: string where "log_tick = [CHR 0xE2, CHR 0x9C, CHR 0x93]"
definition log_cross :: string where "log_cross = [CHR 0xE2, CHR 0x9C, CHR 0x97]"

definition discord_check :: string where
  "discord_check = [CHR 0xC3, CHR 0xA2, CHR 0xC5, CHR 0x9B, CHR 0xE2, CHR 0x80, CHR 0xA6]"
definition discord_cross :: string where
  "discord_cross = [CHR 0xC3, CHR 0xA2, CHR 0xC5, CHR 0xA5, CHR 0xC5, CHR 0x9A]"
definition discord_warning :: string where
  "discord_warning = [CHR 0xC3, CHR 0xA2, CHR 0xC5, CHR 0xA1, CHR 0xC2, CHR 0xA0,
     CHR 0xC4, CHR 0x8F, CHR 0xC2, CHR 0xB8, CHR 0xC5, CHR 0xB9]"
definition discord_speaker :: string where
  "discord_speaker = [CHR 0xC4, CHR 0x91, CHR 0xC5, CHR 0xBA, CHR 0xE2, CHR 0x80, CHR 0x9C,
     CHR 0xCB, CHR 0x98]"

section \<open>The build event (types.ts, as index.ts, the notifiers and the tests use it)\<close>

record BuildTriggerMetadata =
  branch :: "string option"
  commitHash :: "string option"
  author :: "string option"

record Payload =
  buildUuid :: string
  status :: string
  buildOutcome :: "string option"
  createdAt :: string
  stoppedAt :: "string option"
  buildTriggerMetadata :: "BuildTriggerMetadata option"

record Source =
  workerName :: "string option"

record Metadata =
  accountId :: string
  eventTimestamp :: string

text \<open>
  The queue delivers untyped JSON: \<open>type\<close>, \<open>source\<close>, \<open>payload\<close> and \<open>metadata\<close> may be
  missing, which is why index.ts validates them and the notifiers read them with \<open>?.\<close>.
\<close>

record CloudflareEvent =
  type :: "string option"
  source :: "Source option"
  payload :: "Payload option"
  metadata :: "Metadata option"

record BuildStatus =
  isSucceeded :: bool
  isFailed :: bool
  isCancelled :: bool

text \<open>notifiers/base.ts\<close>

record NotificationData =
  event :: CloudflareEvent
  previewUrl :: "string option"
  liveUrl :: "string option"
  logs :: "string list"

section \<open>helpers.ts\<close>

text \<open>
  helpers.ts is not among the sources. The notifiers and index.ts import six functions from
  it; they are the fields of this record, and every definition translated from a source file
  takes the record as its first argument. The helpers are functions of their arguments
  that return a value.
\<close>

record Helpers =
  getBuildStatus :: "CloudflareEvent \<Rightarrow> BuildStatus"
  isProductionBranch :: "string option \<Rightarrow> bool"
  extractAuthorName :: "string option \<Rightarrow> string option"
  getCommitUrl :: "CloudflareEvent \<Rightarrow> string option"
  getDashboardUrl :: "CloudflareEvent \<Rightarrow> string option"
  extractBuildError :: "string list \<Rightarrow> string"

text \<open>\<open>event.payload?.buildTriggerMetadata\<close>\<close>

definition triggerMeta :: "CloudflareEvent \<Rightarrow> BuildTriggerMetadata option" where
  "triggerMeta ev = Option.bind (payload ev) buildTriggerMetadata"

text \<open>\<open>event.source?.workerName || "Worker"\<close>\<close>

definition workerNameOf :: "CloudflareEvent \<Rightarrow> string" where
  "workerNameOf ev = orDefault (Option.bind (source ev) workerName) ''Worker''"

section \<open>notifiers/slack.ts\<close>

text \<open>
  A \<open>MrkdwnElement\<close> is \<open>{type: "mrkdwn", text}\<close> and is modelled by its text; a section
  block by its mrkdwn text and its optional button accessory.
\<close>

datatype Button =
  Button (button_text: string) (button_url: string) (button_style: "string option")

datatype KnownBlock =
  SectionBlock (section_text: string) (accessory: "Button option")
| ContextBlock (elements: "string list")

record SlackPayload =
  blocks :: "KnownBlock list"

definition buildSectionBlock ::
  "string \<Rightarrow> string option \<Rightarrow> string option \<Rightarrow> string option \<Rightarrow> KnownBlock" where
  "buildSectionBlock txt buttonText buttonUrl buttonStyle =
     (case (buttonText, buttonUrl) of
        (Some bt, Some bu) \<Rightarrow>
          if bt \<noteq> [] \<and> bu \<noteq> []
          then SectionBlock txt
                 (Some (Button bt bu (if truthy buttonStyle then buttonStyle else None)))
          else SectionBlock txt None
      | _ \<Rightarrow> SectionBlock txt None)"

definition buildContextBlock :: "string list \<Rightarrow> KnownBlock" where
  "buildContextBlock els = ContextBlock els"

definition buildContextElements :: "Helpers \<Rightarrow> CloudflareEvent \<Rightarrow> string list" where
  "buildContextElements h ev =
     (let meta = triggerMeta ev;
          commitUrl = getCommitUrl h ev;
          authorName = extractAuthorName h (Option.bind meta author)
      in pushIf (Option.bind meta branch) (\<lambda>b. ''*Branch:* `'' @ b @ ''`'')
       @ pushIf (Option.bind meta commitHash)
           (\<lambda>c. let commitText = take 7 c
                in ''*Commit:* '' @
                   (case commitUrl of
                      Some u \<Rightarrow> if u \<noteq> [] then ''<'' @ u @ ''|'' @ commitText @ ''>''
                               else ''`'' @ commitText @ ''`''
                    | None \<Rightarrow> ''`'' @ commitText @ ''`''))
       @ pushIf authorName (\<lambda>a. ''*Author:* '' @ a))"

text \<open>
  The statement the three message builders share: the context block is pushed only when
  \<open>contextElements.length > 0\<close>.
\<close>

definition withContext :: "Helpers \<Rightarrow> CloudflareEvent \<Rightarrow> KnownBlock list" where
  "withContext h ev =
     (let contextElements = buildContextElements h ev
      in if length contextElements > 0 then [buildContextBlock contextElements] else [])"

definition Slack_buildSuccessMessage ::
  "Helpers \<Rightarrow> CloudflareEvent \<Rightarrow> bool \<Rightarrow> string option \<Rightarrow> string option \<Rightarrow> SlackPayload" where
  "Slack_buildSuccessMessage h ev isProduction pUrl lUrl =
     (let wName = workerNameOf ev;
          dashUrl = getDashboardUrl h ev;
          title = (if isProduction then ''Production Deploy'' else ''Preview Deploy'');
          buttonText = (if isProduction
                        then (if truthy lUrl then ''View Worker'' else ''View Build'')
                        else (if truthy pUrl then ''View Preview'' else ''View Build''));
          buttonUrl = (if isProduction then orElse lUrl dashUrl else orElse pUrl dashUrl)
      in \<lparr> blocks =
             buildSectionBlock (slack_check @ ''  *'' @ title @ ''*'' @ nl @ ''*'' @ wName @ ''*'')
               (Some buttonText) buttonUrl None
             # withContext h ev \<rparr>)"

definition Slack_buildFailureMessage ::
  "Helpers \<Rightarrow> CloudflareEvent \<Rightarrow> string list \<Rightarrow> SlackPayload" where
  "Slack_buildFailureMessage h ev lgs =
     (let wName = workerNameOf ev;
          dashUrl = getDashboardUrl h ev;
          err = extractBuildError h lgs
      in \<lparr> blocks =
             buildSectionBlock (slack_cross @ ''  *Build Failed*'' @ nl @ ''*'' @ wName @ ''*'')
               (if truthy dashUrl then Some ''View Logs'' else None) dashUrl (Some ''danger'')
             # withContext h ev
             @ [SectionBlock (''```'' @ err @ ''```'') None] \<rparr>)"

definition Slack_buildCancelledMessage :: "Helpers \<Rightarrow> CloudflareEvent \<Rightarrow> SlackPayload" where
  "Slack_buildCancelledMessage h ev =
     (let wName = workerNameOf ev;
          dashUrl = getDashboardUrl h ev
      in \<lparr> blocks =
             buildSectionBlock
               (slack_warning @ ''  *Build Cancelled*'' @ nl @ ''*'' @ wName @ ''*'')
               (if truthy dashUrl then Some ''View Build'' else None) dashUrl None
             # withContext h ev \<rparr>)"

definition Slack_buildFallbackMessage :: "CloudflareEvent \<Rightarrow> SlackPayload" where
  "Slack_buildFallbackMessage ev =
     \<lparr> blocks = [SectionBlock (slack_speaker @ '' '' @ orDefault (type ev) ''Unknown event'') None] \<rparr>"

text \<open>
  \<open>SlackNotifier.buildPayload\<close>. Nothing in it or in the builders it calls dereferences a
  field that may be missing, so it has no throwing branch; the result type is the one of
  the \<open>Notifier\<close> interface.
\<close>

definition Slack_buildPayload :: "Helpers \<Rightarrow> NotificationData \<Rightarrow> error + SlackPayload" where
  "Slack_buildPayload h data =
     (let ev = event data;
          st = getBuildStatus h ev;
          meta = triggerMeta ev;
          isProduction = isProductionBranch h (Option.bind meta branch)
      in if isSucceeded st
         then Inr (Slack_buildSuccessMessage h ev isProduction (previewUrl data) (liveUrl data))
         else if isFailed st then Inr (Slack_buildFailureMessage h ev (logs data))
         else if isCancelled st then Inr (Slack_buildCancelledMessage h ev)
         else Inr (Slack_buildFallbackMessage ev))"

section \<open>notifiers/discord.ts\<close>

record DiscordEmbedField =
  name :: string
  val :: string
  inline :: bool

record DiscordEmbed =
  title :: "string option"
  description :: "string option"
  color :: "nat option"
  embed_fields :: "DiscordEmbedField list option"
  timestamp :: "string option"
  url :: "string option"

record DiscordPayload =
  embeds :: "DiscordEmbed list"

definition COLORS_SUCCESS :: nat where "COLORS_SUCCESS = 0x28a745"
definition COLORS_FAILURE :: nat where "COLORS_FAILURE = 0xdc3545"
definition COLORS_CANCELLED :: nat where "COLORS_CANCELLED = 0xffc107"
definition COLORS_DEFAULT :: nat where "COLORS_DEFAULT = 0x0366d6"

definition buildMetadataFields :: "Helpers \<Rightarrow> CloudflareEvent \<Rightarrow> DiscordEmbedField list" where
  "buildMetadataFields h ev =
     (let meta = triggerMeta ev;
          commitUrl = getCommitUrl h ev;
          authorName = extractAuthorName h (Option.bind meta author)
      in pushIf (Option.bind meta branch)
           (\<lambda>b. \<lparr> name = ''Branch'', val = ''`'' @ b @ ''`'', inline = True \<rparr>)
       @ pushIf (Option.bind meta commitHash)
           (\<lambda>c. let commitText = take 7 c;
                    v = (case commitUrl of
                           Some u \<Rightarrow> if u \<noteq> [] then ''[`'' @ commitText @ ''`]('' @ u @ '')''
                                    else ''`'' @ commitText @ ''`''
                         | None \<Rightarrow> ''`'' @ commitText @ ''`'')
                in \<lparr> name = ''Commit'', val = v, inline = True \<rparr>)
       @ pushIf authorName (\<lambda>a. \<lparr> name = ''Author'', val = a, inline = True \<rparr>))"

text \<open>
  \<open>event.payload.stoppedAt || event.metadata.eventTimestamp\<close>: reading \<open>stoppedAt\<close> throws
  when the payload is missing, and \<open>eventTimestamp\<close> is read, and throws when the metadata
  is missing, only if \<open>stoppedAt\<close> is not truthy.
\<close>

definition stoppedOrEventTime :: "CloudflareEvent \<Rightarrow> error + string" where
  "stoppedOrEventTime ev =
     (case payload ev of
        None \<Rightarrow> Inl (TypeError ''Cannot read properties of undefined (reading 'stoppedAt')'')
      | Some p \<Rightarrow>
          (case stoppedAt p of
             Some s \<Rightarrow> if s \<noteq> [] then Inr s else
               (case metadata ev of
                  None \<Rightarrow> Inl (TypeError ''Cannot read properties of undefined (reading 'eventTimestamp')'')
                | Some m \<Rightarrow> Inr (eventTimestamp m))
           | None \<Rightarrow>
               (case metadata ev of
                  None \<Rightarrow> Inl (TypeError ''Cannot read properties of undefined (reading 'eventTimestamp')'')
                | Some m \<Rightarrow> Inr (eventTimestamp m))))"

definition Discord_buildSuccessMessage ::
  "Helpers \<Rightarrow> CloudflareEvent \<Rightarrow> bool \<Rightarrow> string option \<Rightarrow> string option \<Rightarrow> error + DiscordPayload"
  where
  "Discord_buildSuccessMessage h ev isProduction pUrl lUrl =
     (let wName = workerNameOf ev;
          dashUrl = getDashboardUrl h ev;
          ttl = (if isProduction then ''Production Deploy'' else ''Preview Deploy'');
          u = (if isProduction then orElse lUrl dashUrl else orElse pUrl dashUrl);
          fs = buildMetadataFields h ev
             @ (if isProduction \<and> truthy lUrl
                then pushIf lUrl (\<lambda>l. \<lparr> name = ''Worker URL'',
                                         val = ''[View Worker]('' @ l @ '')'', inline = False \<rparr>)
                else if \<not> isProduction \<and> truthy pUrl
                then pushIf pUrl (\<lambda>p. \<lparr> name = ''Preview URL'',
                                         val = ''[View Preview]('' @ p @ '')'', inline = False \<rparr>)
                else [])
      in case stoppedOrEventTime ev of
           Inl e \<Rightarrow> Inl e
         | Inr ts \<Rightarrow>
             Inr \<lparr> embeds =
               [\<lparr> title = Some (discord_check @ '' '' @ ttl),
                  description = Some (''**'' @ wName @ ''**''),
                  color = Some COLORS_SUCCESS,
                  embed_fields = Some fs,
                  timestamp = Some ts,
                  url = (if truthy u then u else None) \<rparr>] \<rparr>)"

definition Discord_buildFailureMessage ::
  "Helpers \<Rightarrow> CloudflareEvent \<Rightarrow> string list \<Rightarrow> error + DiscordPayload" where
  "Discord_buildFailureMessage h ev lgs =
     (let wName = workerNameOf ev;
          dashUrl = getDashboardUrl h ev;
          err = extractBuildError h lgs;
          fs = buildMetadataFields h ev
             @ [\<lparr> name = ''Error'',
                  val = ''```'' @ nl @ take 1000 err @ nl @ ''```'', inline = False \<rparr>]
             @ pushIf dashUrl (\<lambda>d. \<lparr> name = ''Logs'',
                                      val = ''[View Full Logs]('' @ d @ '')'', inline = False \<rparr>)
      in case stoppedOrEventTime ev of
           Inl e \<Rightarrow> Inl e
         | Inr ts \<Rightarrow>
             Inr \<lparr> embeds =
               [\<lparr> title = Some (discord_cross @ '' Build Failed''),
                  description = Some (''**'' @ wName @ ''**''),
                  color = Some COLORS_FAILURE,
                  embed_fields = Some fs,
                  timestamp = Some ts,
                  url = None \<rparr>] \<rparr>)"

definition Discord_buildCancelledMessage ::
  "Helpers \<Rightarrow> CloudflareEvent \<Rightarrow> error + DiscordPayload" where
  "Discord_buildCancelledMessage h ev =
     (let wName = workerNameOf ev;
          dashUrl = getDashboardUrl h ev;
          fs = buildMetadataFields h ev
             @ pushIf dashUrl (\<lambda>d. \<lparr> name = ''Build Details'',
                                      val = ''[View Build]('' @ d @ '')'', inline = False \<rparr>)
      in case stoppedOrEventTime ev of
           Inl e \<Rightarrow> Inl e
         | Inr ts \<Rightarrow>
             Inr \<lparr> embeds =
               [\<lparr> title = Some (discord_warning @ '' Build Cancelled''),
                  description = Some (''**'' @ wName @ ''**''),
                  color = Some COLORS_CANCELLED,
                  embed_fields = Some fs,
                  timestamp = Some ts,
                  url = None \<rparr>] \<rparr>)"

definition Discord_buildFallbackMessage :: "CloudflareEvent \<Rightarrow> error + DiscordPayload" where
  "Discord_buildFallbackMessage ev =
     (case metadata ev of
        None \<Rightarrow> Inl (TypeError ''Cannot read properties of undefined (reading 'eventTimestamp')'')
      | Some m \<Rightarrow>
          Inr \<lparr> embeds =
            [\<lparr> title = Some (discord_speaker @ '' Build Event''),
               description = Some (orDefault (type ev) ''Unknown event''),
               color = Some COLORS_DEFAULT,
               embed_fields = None,
               timestamp = Some (eventTimestamp m),
               url = None \<rparr>] \<rparr>)"

text \<open>\<open>DiscordNotifier.buildPayload\<close>\<close>

definition Discord_buildPayload :: "Helpers \<Rightarrow> NotificationData \<Rightarrow> error + DiscordPayload" where
  "Discord_buildPayload h data =
     (let ev = event data;
          st = getBuildStatus h ev;
          meta = triggerMeta ev;
          isProduction = isProductionBranch h (Option.bind meta branch)
      in if isSucceeded st
         then Discord_buildSuccessMessage h ev isProduction (previewUrl data) (liveUrl data)
         else if isFailed st then Discord_buildFailureMessage h ev (logs data)
         else if isCancelled st then Discord_buildCancelledMessage h ev
         else Discord_buildFallbackMessage ev)"

section \<open>The outside world: environment, webhook transport, recorded calls\<close>

text \<open>\<open>Env\<close> (types.ts): the bindings the sources read, each a string that may be unset.\<close>

datatype EnvKey = SLACK_WEBHOOK_URL | LARK_WEBHOOK_URL | DISCORD_WEBHOOK_URL | CLOUDFLARE_API_TOKEN

type_synonym Env = "EnvKey \<Rightarrow> string option"

text \<open>
  What a notifier builds and posts. lark.ts is not among the sources, so a Lark card is
  kept as the text the Lark notifier produced.
\<close>

datatype AnyPayload = SlackP SlackPayload | DiscordP DiscordPayload | LarkP string

text \<open>
  \<open>fetch(webhookUrl, {method: "POST", body: JSON.stringify(payload)})\<close>: the promise rejects
  (a transport error) or resolves to a response with a status and a body text.
\<close>

datatype FetchResult = Rejected string | Response nat string

type_synonym Fetch = "string \<Rightarrow> AnyPayload \<Rightarrow> FetchResult"

text \<open>\<open>response.ok\<close>\<close>

definition response_ok :: "nat \<Rightarrow> bool" where
  "response_ok st = (200 \<le> st \<and> st \<le> 299)"

fun showNat :: "nat \<Rightarrow> string" where
  "showNat n =
     (if n < 10 then [char_of (48 + n)] else showNat (n div 10) @ [char_of (48 + n mod 10)])"

text \<open>
  What a run does to the outside world, in the order it does it: calls of a notifier's
  methods (recorded with the registry key of the notifier), calls of the enrichment
  fetchers, console output, and acknowledgements of queue messages.
\<close>

datatype Effect =
  BuildPayloadCall EnvKey NotificationData
| SendCall EnvKey string AnyPayload
| FetchBuildUrlsCall CloudflareEvent
| FetchBuildLogsCall CloudflareEvent
| ConsoleLog string
| ConsoleWarn string
| ConsoleError string
| Ack string

text \<open>notifiers/base.ts: the \<open>Notifier\<close> interface.\<close>

record Notifier =
  notifier_name :: string
  buildPayload :: "NotificationData \<Rightarrow> error + AnyPayload"
  send :: "string \<Rightarrow> AnyPayload \<Rightarrow> error + unit"

text \<open>\<open>SlackNotifier.send\<close> and \<open>DiscordNotifier.send\<close>\<close>

definition Slack_send :: "Fetch \<Rightarrow> string \<Rightarrow> AnyPayload \<Rightarrow> error + unit" where
  "Slack_send fetch webhookUrl p =
     (case fetch webhookUrl p of
        Rejected m \<Rightarrow> Inl (Error m)
      | Response st txt \<Rightarrow>
          if \<not> response_ok st
          then Inl (Error (''Slack API error: '' @ showNat st @ '' '' @ txt))
          else Inr ())"

definition Discord_send :: "Fetch \<Rightarrow> string \<Rightarrow> AnyPayload \<Rightarrow> error + unit" where
  "Discord_send fetch webhookUrl p =
     (case fetch webhookUrl p of
        Rejected m \<Rightarrow> Inl (Error m)
      | Response st txt \<Rightarrow>
          if \<not> response_ok st
          then Inl (Error (''Discord API error: '' @ showNat st @ '' '' @ txt))
          else Inr ())"

definition SlackNotifier :: "Helpers \<Rightarrow> Fetch \<Rightarrow> Notifier" where
  "SlackNotifier h fetch =
     \<lparr> notifier_name = ''Slack'',
       buildPayload = (\<lambda>data. map_sum id SlackP (Slack_buildPayload h data)),
       send = Slack_send fetch \<rparr>"

definition DiscordNotifier :: "Helpers \<Rightarrow> Fetch \<Rightarrow> Notifier" where
  "DiscordNotifier h fetch =
     \<lparr> notifier_name = ''Discord'',
       buildPayload = (\<lambda>data. map_sum id DiscordP (Discord_buildPayload h data)),
       send = Discord_send fetch \<rparr>"

section \<open>notificationManager.ts\<close>

record NotifierConfig =
  notifier :: Notifier
  webhookUrlKey :: EnvKey

text \<open>
  The registry. Its Slack and Discord notifiers are the ones above; the Lark notifier, whose
  source is missing, is an argument: any value of the \<open>Notifier\<close> interface.
\<close>

definition NOTIFIERS :: "Helpers \<Rightarrow> Fetch \<Rightarrow> Notifier \<Rightarrow> NotifierConfig list" where
  "NOTIFIERS h fetch lark =
     [ \<lparr> notifier = SlackNotifier h fetch, webhookUrlKey = SLACK_WEBHOOK_URL \<rparr>,
       \<lparr> notifier = lark, webhookUrlKey = LARK_WEBHOOK_URL \<rparr>,
       \<lparr> notifier = DiscordNotifier h fetch, webhookUrlKey = DISCORD_WEBHOOK_URL \<rparr> ]"

text \<open>
  The body of the \<open>try\<close> inside the async function started for one configured notifier:
  what it does, and whether it ends normally or throws.
\<close>

definition notifyTry ::
  "NotifierConfig \<Rightarrow> string \<Rightarrow> NotificationData \<Rightarrow> Effect list \<times> (error + unit)" where
  "notifyTry c webhookUrl data =
     (case buildPayload (notifier c) data of
        Inl e \<Rightarrow> ([BuildPayloadCall (webhookUrlKey c) data], Inl e)
      | Inr p \<Rightarrow>
          (case send (notifier c) webhookUrl p of
             Inl e \<Rightarrow>
               ([BuildPayloadCall (webhookUrlKey c) data, SendCall (webhookUrlKey c) webhookUrl p],
                Inl e)
           | Inr u \<Rightarrow>
               ([BuildPayloadCall (webhookUrlKey c) data, SendCall (webhookUrlKey c) webhookUrl p,
                 ConsoleLog (log_tick @ '' Sent notification to '' @ notifier_name (notifier c))],
                Inr ())))"

text \<open>The async function with its \<open>catch\<close>: the promise it returns and what it did.\<close>

definition notifyOne ::
  "NotifierConfig \<Rightarrow> string \<Rightarrow> NotificationData \<Rightarrow> Effect list \<times> (error + unit)" where
  "notifyOne c webhookUrl data =
     (case notifyTry c webhookUrl data of
        (effs, Inl e) \<Rightarrow>
          (effs @ [ConsoleError (log_cross @ '' Failed to send to '' @ notifier_name (notifier c) @ '':'')],
           Inr ())
      | (effs, Inr u) \<Rightarrow> (effs, Inr ()))"

text \<open>\<open>Promise.all\<close>: rejects with the first rejection, if there is one.\<close>

fun promiseAll :: "(error + unit) list \<Rightarrow> error + unit" where
  "promiseAll [] = Inr ()"
| "promiseAll (Inl e # rs) = Inl e"
| "promiseAll (Inr u # rs) = promiseAll rs"

text \<open>The loop over the registry: one promise for every notifier whose webhook URL is set.\<close>

fun startAll ::
  "NotifierConfig list \<Rightarrow> NotificationData \<Rightarrow> Env \<Rightarrow> (Effect list \<times> (error + unit)) list" where
  "startAll [] data env = []"
| "startAll (c # cs) data env =
     (case env (webhookUrlKey c) of
        None \<Rightarrow> startAll cs data env
      | Some webhookUrl \<Rightarrow>
          if webhookUrl = [] then startAll cs data env
          else notifyOne c webhookUrl data # startAll cs data env)"

text \<open>
  \<open>sendNotifications\<close>, with the registry as an argument. The calls of one notifier are
  recorded in the order it makes them; the records of different notifiers follow the
  registry order, which is one of the interleavings the event loop allows.
\<close>

definition sendNotifications ::
  "NotifierConfig list \<Rightarrow> NotificationData \<Rightarrow> Env \<Rightarrow> Effect list \<times> (error + unit)" where
  "sendNotifications registry data env =
     (let promises = startAll registry data env
      in if length promises = 0
         then ([ConsoleWarn ''No notification webhooks configured. Set SLACK_WEBHOOK_URL, LARK_WEBHOOK_URL, or DISCORD_WEBHOOK_URL.''],
               Inr ())
         else (concat (map fst promises), promiseAll (map snd promises)))"

section \<open>index.ts\<close>

text \<open>api.ts is not among the sources: its two fetchers are arguments, and each may throw.\<close>

record Api =
  fetchBuildUrls :: "CloudflareEvent \<Rightarrow> Env \<Rightarrow> error + (string option \<times> string option)"
  fetchBuildLogs :: "CloudflareEvent \<Rightarrow> Env \<Rightarrow> error + string list"

text \<open>A queue message: its id and its body, which may be \<open>null\<close>.\<close>

record Message =
  msg_id :: string
  body :: "CloudflareEvent option"

definition invalidEvent :: "Message \<Rightarrow> Effect list \<times> (error + unit)" where
  "invalidEvent m = ([ConsoleError ''Invalid event structure:'', Ack (msg_id m)], Inr ())"

text \<open>The rest of the \<open>try\<close> body once the enrichment data is there.\<close>

definition notifyAndAck ::
  "NotifierConfig list \<Rightarrow> Env \<Rightarrow> Message \<Rightarrow> Effect list \<Rightarrow> NotificationData
     \<Rightarrow> Effect list \<times> (error + unit)" where
  "notifyAndAck registry env m done data =
     (case sendNotifications registry data env of
        (effs, Inl e) \<Rightarrow> (done @ effs, Inl e)
      | (effs, Inr u) \<Rightarrow> (done @ effs @ [Ack (msg_id m)], Inr ()))"

text \<open>The body of the \<open>try\<close> for one message.\<close>

definition processMessage ::
  "Helpers \<Rightarrow> Api \<Rightarrow> NotifierConfig list \<Rightarrow> Env \<Rightarrow> Message \<Rightarrow> Effect list \<times> (error + unit)"
  where
  "processMessage h api registry env m =
     (case body m of
        None \<Rightarrow> invalidEvent m
      | Some ev \<Rightarrow>
          (case type ev of
             None \<Rightarrow> invalidEvent m
           | Some t \<Rightarrow>
               if t = [] \<or> payload ev = None \<or> metadata ev = None then invalidEvent m
               else if str_includes t ''started'' \<or> str_includes t ''queued''
               then ([Ack (msg_id m)], Inr ())
               else
                 (let st = getBuildStatus h ev
                  in if isSucceeded st
                     then (case fetchBuildUrls api ev env of
                             Inl e \<Rightarrow> ([FetchBuildUrlsCall ev], Inl e)
                           | Inr (pUrl, lUrl) \<Rightarrow>
                               notifyAndAck registry env m [FetchBuildUrlsCall ev]
                                 \<lparr> event = ev, previewUrl = pUrl, liveUrl = lUrl, logs = [] \<rparr>)
                     else if isFailed st \<and> \<not> isCancelled st
                     then (case fetchBuildLogs api ev env of
                             Inl e \<Rightarrow> ([FetchBuildLogsCall ev], Inl e)
                           | Inr lgs \<Rightarrow>
                               notifyAndAck registry env m [FetchBuildLogsCall ev]
                                 \<lparr> event = ev, previewUrl = None, liveUrl = None, logs = lgs \<rparr>)
                     else notifyAndAck registry env m []
                            \<lparr> event = ev, previewUrl = None, liveUrl = None, logs = [] \<rparr>)))"

text \<open>One iteration of the loop: the \<open>try\<close> body with its \<open>catch\<close>.\<close>

definition handleMessage ::
  "Helpers \<Rightarrow> Api \<Rightarrow> NotifierConfig list \<Rightarrow> Env \<Rightarrow> Message \<Rightarrow> Effect list \<times> (error + unit)"
  where
  "handleMessage h api registry env m =
     (case processMessage h api registry env m of
        (effs, Inl e) \<Rightarrow> (effs @ [ConsoleError ''Error processing message:'', Ack (msg_id m)], Inr ())
      | (effs, Inr u) \<Rightarrow> (effs, Inr ()))"

text \<open>\<open>for (const message of batch.messages)\<close>: a throwing iteration ends the loop.\<close>

fun forEach ::
  "(Message \<Rightarrow> Effect list \<times> (error + unit)) \<Rightarrow> Message list \<Rightarrow> Effect list \<times> (error + unit)"
  where
  "forEach f [] = ([], Inr ())"
| "forEach f (m # ms) =
     (case f m of
        (effs, Inl e) \<Rightarrow> (effs, Inl e)
      | (effs, Inr u) \<Rightarrow> (case forEach f ms of (effs', r) \<Rightarrow> (effs @ effs', r)))"

text \<open>The \<open>queue\<close> handler; \<open>batch\<close> is \<open>batch.messages\<close>.\<close>

definition queue ::
  "Helpers \<Rightarrow> Api \<Rightarrow> NotifierConfig list \<Rightarrow> Message list \<Rightarrow> Env \<Rightarrow> Effect list \<times> (error + unit)"
  where
  "queue h api registry batch env =
     (let hasWebhook = truthy (orElse (orElse (env SLACK_WEBHOOK_URL) (env LARK_WEBHOOK_URL))
                                 (env DISCORD_WEBHOOK_URL))
      in if \<not> hasWebhook
         then (case forEach (\<lambda>m. ([Ack (msg_id m)], Inr ())) batch of
                 (effs, r) \<Rightarrow>
                   (ConsoleError ''No webhook URLs configured. Set SLACK_WEBHOOK_URL, LARK_WEBHOOK_URL, or DISCORD_WEBHOOK_URL.''
                    # effs, r))
         else forEach (handleMessage h api registry env) batch)"

section \<open>The error extractor the specification describes\<close>

text \<open>
  Modelled from the spec: \<open>extractBuildError\<close> of helpers.ts, which is not among the sources.
  Section 4.2 of the specification: scan the lines in order; a line is an error marker if
  it matches an error-indicator pattern and is not a metadata line of the denylist; the
  block starts at the first error marker; if no line is a marker, the result is the last
  non-empty line, or the fallback literal. Section 9 asks for the patterns as an explicit
  rule list: they are the first two fields of \<open>ExtractorRules\<close>. Which of the lines after
  the marker are taken into its block the specification leaves open (section 4.2 makes
  the accumulation optional, sections 2 and 9 speak of discarding such lines): that choice
  is the third field, a function of the lines after the marker. The lines of the block are
  joined by newlines.
\<close>

record ExtractorRules =
  markerPatterns :: "string list"
  denylistPatterns :: "string list"
  continuationOf :: "string list \<Rightarrow> string list"

definition isErrorIndicator :: "ExtractorRules \<Rightarrow> string \<Rightarrow> bool" where
  "isErrorIndicator rules line = list_ex (str_includes line) (markerPatterns rules)"

definition isMetadataLine :: "ExtractorRules \<Rightarrow> string \<Rightarrow> bool" where
  "isMetadataLine rules line = list_ex (str_includes line) (denylistPatterns rules)"

definition isErrorMarker :: "ExtractorRules \<Rightarrow> string \<Rightarrow> bool" where
  "isErrorMarker rules line = (isErrorIndicator rules line \<and> \<not> isMetadataLine rules line)"

fun firstErrorBlock :: "ExtractorRules \<Rightarrow> string list \<Rightarrow> string list option" where
  "firstErrorBlock rules [] = None"
| "firstErrorBlock rules (l # ls) =
     (if isErrorMarker rules l then Some (l # continuationOf rules ls)
      else firstErrorBlock rules ls)"

fun joinLines :: "string list \<Rightarrow> string" where
  "joinLines [] = []"
| "joinLines [l] = l"
| "joinLines (l # k # ls) = l @ nl @ joinLines (k # ls)"

fun lastNonEmpty :: "string list \<Rightarrow> string option" where
  "lastNonEmpty [] = None"
| "lastNonEmpty (l # ls) =
     (case lastNonEmpty ls of Some k \<Rightarrow> Some k | None \<Rightarrow> if l = [] then None else Some l)"

definition extractBuildError_spec :: "ExtractorRules \<Rightarrow> string list \<Rightarrow> string" where
  "extractBuildError_spec rules lgs =
     (if lgs = [] then ''No logs available''
      else case firstErrorBlock rules lgs of
             Some block \<Rightarrow> joinLines block
           | None \<Rightarrow> (case lastNonEmpty lgs of Some l \<Rightarrow> l | None \<Rightarrow> ''No logs available''))"

text \<open>
  The rule list of the examples the specification gives: the marker \<open>[ERROR]\<close> and the
  error glyph of the test logs, and the two metadata reports it names; of the lines after
  the marker it keeps none.
\<close>

definition error_glyph :: string where "error_glyph = [CHR 0xE2, CHR 0x9C, CHR 0x98]"

definition exampleRules :: ExtractorRules where
  "exampleRules =
     \<lparr> markerPatterns = [''[ERROR]'', error_glyph],
       denylistPatterns = [''Total Upload'', ''Worker Startup Time''],
       continuationOf = (\<lambda>ls. []) \<rparr>"

text \<open>
  A classifier for the concrete runs below. helpers.ts is not among the sources, so this
  is an example and no model of \<open>getBuildStatus\<close>: a cancelled outcome is cancelled; if
  not, a type with "succeeded" is succeeded; if not, a type with "failed" is failed. With
  it the events of the repository's tests get the messages the tests expect.
\<close>

definition exampleStatus :: "CloudflareEvent \<Rightarrow> BuildStatus" where
  "exampleStatus ev =
     (let cancelled = (Option.bind (payload ev) buildOutcome = Some ''cancelled'');
          succeeded = (\<not> cancelled
                       \<and> (case type ev of None \<Rightarrow> False | Some t \<Rightarrow> str_includes t ''succeeded''));
          failed = (\<not> cancelled \<and> \<not> succeeded
                    \<and> (case type ev of None \<Rightarrow> False | Some t \<Rightarrow> str_includes t ''failed''))
      in \<lparr> isSucceeded = succeeded, isFailed = failed, isCancelled = cancelled \<rparr>)"

text \<open>
  Helpers for the concrete runs below: the example classifier, a production branch
  \<open>main\<close>, the author's name up to the \<open>@\<close> of an address, no commit link, a
  dashboard link made of the account and the build, and the modelled extractor.
\<close>

definition exampleHelpers :: Helpers where
  "exampleHelpers =
     \<lparr> getBuildStatus = exampleStatus,
       isProductionBranch = (\<lambda>b. b = Some ''main''),
       extractAuthorName =
         (\<lambda>a. case a of None \<Rightarrow> None | Some n \<Rightarrow> Some (takeWhile (\<lambda>c. c \<noteq> CHR ''@'') n)),
       getCommitUrl = (\<lambda>ev. None),
       getDashboardUrl =
         (\<lambda>ev. case (metadata ev, payload ev) of
                  (Some m, Some p) \<Rightarrow>
                    Some (''https://dash.cloudflare.com/'' @ accountId m @ ''/builds/'' @ buildUuid p)
                | _ \<Rightarrow> None),
       extractBuildError = extractBuildError_spec exampleRules \<rparr>"

section \<open>Reading a record of calls\<close>



text \<open>All calls of notifier methods: the only places where a run touches the network.\<close>

definition notifierCalls :: "Effect list \<Rightarrow> Effect list" where
  "notifierCalls effs =
     filter (\<lambda>e. case e of BuildPayloadCall k d \<Rightarrow> True | SendCall k u p \<Rightarrow> True | _ \<Rightarrow> False) effs"

text \<open>The ids of the acknowledged messages, one entry for each \<open>ack()\<close>.\<close>

definition acksOf :: "Effect list \<Rightarrow> string list" where
  "acksOf effs = concat (map (\<lambda>e. case e of Ack i \<Rightarrow> [i] | _ \<Rightarrow> []) effs)"



text \<open>\<open>configured env c\<close>: the webhook URL of registry entry \<open>c\<close> is set and not empty.\<close>

definition configured :: "Env \<Rightarrow> NotifierConfig \<Rightarrow> bool" where
  "configured env c = truthy (env (webhookUrlKey c))"

text \<open>The buttons of a Slack payload, in block order.\<close>

definition buttonsOf :: "SlackPayload \<Rightarrow> Button list" where
  "buttonsOf p =
     concat (map (\<lambda>b. case b of SectionBlock t (Some bt) \<Rightarrow> [bt] | _ \<Rightarrow> []) (blocks p))"

section \<open>What the platforms have to agree on\<close>

text \<open>
  The metadata of a message as the specification lists it (section 4.3): the branch, the
  first seven characters of the commit hash with the link to the commit when there is one,
  and the display name of the author; each only when it is there.
\<close>

datatype MetaItem =
  BranchItem string
| CommitItem string "string option"
| AuthorItem string

definition metadataItems :: "Helpers \<Rightarrow> CloudflareEvent \<Rightarrow> MetaItem list" where
  "metadataItems h ev =
     pushIf (Option.bind (triggerMeta ev) branch) BranchItem
   @ pushIf (Option.bind (triggerMeta ev) commitHash)
       (\<lambda>c. CommitItem (take 7 c) (if truthy (getCommitUrl h ev) then getCommitUrl h ev else None))
   @ pushIf (extractAuthorName h (Option.bind (triggerMeta ev) author)) AuthorItem"

text \<open>How Slack and Discord write one item.\<close>

fun slackElement :: "MetaItem \<Rightarrow> string" where
  "slackElement (BranchItem b) = ''*Branch:* `'' @ b @ ''`''"
| "slackElement (CommitItem c None) = ''*Commit:* `'' @ c @ ''`''"
| "slackElement (CommitItem c (Some u)) = ''*Commit:* <'' @ u @ ''|'' @ c @ ''>''"
| "slackElement (AuthorItem a) = ''*Author:* '' @ a"

fun discordField :: "MetaItem \<Rightarrow> DiscordEmbedField" where
  "discordField (BranchItem b) = \<lparr> name = ''Branch'', val = ''`'' @ b @ ''`'', inline = True \<rparr>"
| "discordField (CommitItem c None) = \<lparr> name = ''Commit'', val = ''`'' @ c @ ''`'', inline = True \<rparr>"
| "discordField (CommitItem c (Some u)) =
     \<lparr> name = ''Commit'', val = ''[`'' @ c @ ''`]('' @ u @ '')'', inline = True \<rparr>"
| "discordField (AuthorItem a) = \<lparr> name = ''Author'', val = a, inline = True \<rparr>"

text \<open>The four kinds of message, and the builder of each platform for a kind.\<close>

datatype MessageKind = Succeeded | Failed | Cancelled | Fallback

definition Slack_message :: "MessageKind \<Rightarrow> Helpers \<Rightarrow> NotificationData \<Rightarrow> SlackPayload" where
  "Slack_message k h data =
     (case k of
        Succeeded \<Rightarrow>
          Slack_buildSuccessMessage h (event data)
            (isProductionBranch h (Option.bind (triggerMeta (event data)) branch))
            (previewUrl data) (liveUrl data)
      | Failed \<Rightarrow> Slack_buildFailureMessage h (event data) (logs data)
      | Cancelled \<Rightarrow> Slack_buildCancelledMessage h (event data)
      | Fallback \<Rightarrow> Slack_buildFallbackMessage (event data))"

definition Discord_message ::
  "MessageKind \<Rightarrow> Helpers \<Rightarrow> NotificationData \<Rightarrow> error + DiscordPayload" where
  "Discord_message k h data =
     (case k of
        Succeeded \<Rightarrow>
          Discord_buildSuccessMessage h (event data)
            (isProductionBranch h (Option.bind (triggerMeta (event data)) branch))
            (previewUrl data) (liveUrl data)
      | Failed \<Rightarrow> Discord_buildFailureMessage h (event data) (logs data)
      | Cancelled \<Rightarrow> Discord_buildCancelledMessage h (event data)
      | Fallback \<Rightarrow> Discord_buildFallbackMessage (event data))"

text \<open>The links a Discord payload carries as the URL of an embed.\<close>

definition embedUrlsOf :: "DiscordPayload \<Rightarrow> string list" where
  "embedUrlsOf p = concat (map (\<lambda>e. case url e of Some u \<Rightarrow> [u] | None \<Rightarrow> []) (embeds p))"

text \<open>The fields of a Discord payload that have a given name.\<close>

definition fieldsNamed :: "string \<Rightarrow> DiscordPayload \<Rightarrow> DiscordEmbedField list" where
  "fieldsNamed n p =
     concat (map (\<lambda>e. case embed_fields e of None \<Rightarrow> [] | Some fs \<Rightarrow> filter (\<lambda>f. name f = n) fs)
               (embeds p))"

text \<open>The kind of message that \<open>buildPayload\<close> chooses for a status.\<close>

definition kindOf :: "BuildStatus \<Rightarrow> MessageKind" where
  "kindOf st =
     (if isSucceeded st then Succeeded
      else if isFailed st then Failed
      else if isCancelled st then Cancelled
      else Fallback)"

text \<open>The elements of the context blocks of a Slack payload.\<close>

definition contextElementsOf :: "SlackPayload \<Rightarrow> string list" where
  "contextElementsOf p =
     concat (map (\<lambda>b. case b of ContextBlock es \<Rightarrow> es | _ \<Rightarrow> []) (blocks p))"

section \<open>Concrete events and runs\<close>

text \<open>The events of the repository's tests (\<open>createMockEvent\<close> and its overrides).\<close>

definition mockMetadata :: Metadata where
  "mockMetadata =
     \<lparr> accountId = ''test-account-id'', eventTimestamp = ''2025-05-01T02:48:57.132Z'' \<rparr>"

definition mockTrigger :: BuildTriggerMetadata where
  "mockTrigger =
     \<lparr> branch = Some ''main'', commitHash = Some ''abc123def456'',
       author = Some ''developer@example.com'' \<rparr>"

definition succeededEvent :: CloudflareEvent where
  "succeededEvent =
     \<lparr> type = Some ''cf.workersBuilds.worker.build.succeeded'',
       source = Some \<lparr> workerName = Some ''test-worker'' \<rparr>,
       payload = Some \<lparr> buildUuid = ''build-12345678-90ab-cdef-1234-567890abcdef'',
                        status = ''stopped'', buildOutcome = Some ''success'',
                        createdAt = ''2025-05-01T02:48:57.132Z'',
                        stoppedAt = Some ''2025-05-01T02:50:15.132Z'',
                        buildTriggerMetadata = Some mockTrigger \<rparr>,
       metadata = Some mockMetadata \<rparr>"


text \<open>The started event of the batch test, whose \<open>buildOutcome\<close> is \<open>null\<close>.\<close>

definition startedEvent :: CloudflareEvent where
  "startedEvent =
     \<lparr> type = Some ''cf.workersBuilds.worker.build.started'',
       source = Some \<lparr> workerName = Some ''test-worker'' \<rparr>,
       payload = Some \<lparr> buildUuid = ''build-1'',
                        status = ''running'', buildOutcome = None,
                        createdAt = ''2025-05-01T02:48:57.132Z'',
                        stoppedAt = None,
                        buildTriggerMetadata = None \<rparr>,
       metadata = Some mockMetadata \<rparr>"

text \<open>An event with nothing optional in it.\<close>

definition bareEvent :: CloudflareEvent where
  "bareEvent =
     \<lparr> type = Some ''cf.workersBuilds.worker.build.failed'',
       source = None,
       payload = Some \<lparr> buildUuid = ''b1'', status = ''stopped'', buildOutcome = Some ''failure'',
                        createdAt = ''2025-05-01T02:48:57.132Z'', stoppedAt = None,
                        buildTriggerMetadata = None \<rparr>,
       metadata = Some mockMetadata \<rparr>"

text \<open>
  The environment and transport of the test "should continue sending to other platforms if
  one fails": three webhooks, and Slack answers 500.
\<close>

definition threeEnv :: Env where
  "threeEnv k =
     (case k of
        SLACK_WEBHOOK_URL \<Rightarrow> Some ''https://hooks.slack.com/services/test''
      | LARK_WEBHOOK_URL \<Rightarrow> Some ''https://open.feishu.cn/open-apis/bot/v2/hook/test''
      | DISCORD_WEBHOOK_URL \<Rightarrow> Some ''https://discord.com/api/webhooks/123/test''
      | CLOUDFLARE_API_TOKEN \<Rightarrow> Some ''token'')"

definition slackDown :: Fetch where
  "slackDown u p =
     (if str_includes u ''hooks.slack.com'' then Response 500 ''Error''
      else if str_includes u ''discord.com/api/webhooks'' then Response 204 []
      else Response 200 ''ok'')"

definition someLark :: "Fetch \<Rightarrow> Notifier" where
  "someLark fetch =
     \<lparr> notifier_name = ''Lark'',
       buildPayload = (\<lambda>data. Inr (LarkP ''card'')),
       send = (\<lambda>u p. case fetch u p of
                        Rejected m \<Rightarrow> Inl (Error m)
                      | Response st txt \<Rightarrow> if response_ok st then Inr () else Inl (Error txt)) \<rparr>"

text \<open>The environment of the test "should handle missing all webhook URLs gracefully".\<close>

definition noWebhookEnv :: Env where
  "noWebhookEnv k = (case k of CLOUDFLARE_API_TOKEN \<Rightarrow> Some ''token'' | _ \<Rightarrow> Some [])"

definition someApi :: Api where
  "someApi =
     \<lparr> fetchBuildUrls = (\<lambda>ev env. Inr (None, Some ''https://test-worker.test.workers.dev'')),
       fetchBuildLogs = (\<lambda>ev env. Inl (Error ''Network error'')) \<rparr>"

text \<open>The data of a succeeded production build whose live URL was found.\<close>

definition okData :: NotificationData where
  "okData =
     \<lparr> event = succeededEvent, previewUrl = None,
       liveUrl = Some ''https://test-worker.test.workers.dev'', logs = [] \<rparr>"

text \<open>Queue messages for the concrete runs: a started event, a message without a body, and a
  failed build whose logs cannot be fetched.\<close>

definition startedMessage :: Message where
  "startedMessage = \<lparr> msg_id = ''m1'', body = Some startedEvent \<rparr>"

definition emptyMessage :: Message where
  "emptyMessage = \<lparr> msg_id = ''m2'', body = None \<rparr>"

definition failedMessage :: Message where
  "failedMessage = \<lparr> msg_id = ''m3'', body = Some bareEvent \<rparr>"

text \<open>Helpers that find no dashboard link, and the data of an event with nothing optional.\<close>

definition noLinkHelpers :: Helpers where
  "noLinkHelpers = exampleHelpers \<lparr> getDashboardUrl := (\<lambda>ev. None) \<rparr>"

definition bareData :: NotificationData where
  "bareData = \<lparr> event = bareEvent, previewUrl = None, liveUrl = None, logs = [] \<rparr>"


text \<open>Logs without an error marker.\<close>

definition quietLogs :: "string list" where
  "quietLogs = [''Installing dependencies...'', ''Build failed'', []]"






section \<open>The dispatch coordinator\<close>

lemma notifyOne_cases:
  "notifyOne c u data =
     (case buildPayload (notifier c) data of
        Inl e \<Rightarrow>
          ([BuildPayloadCall (webhookUrlKey c) data,
            ConsoleError (log_cross @ '' Failed to send to '' @ notifier_name (notifier c) @ '':'')],
           Inr ())
      | Inr p \<Rightarrow>
          (case send (notifier c) u p of
             Inl e \<Rightarrow>
               ([BuildPayloadCall (webhookUrlKey c) data, SendCall (webhookUrlKey c) u p,
                 ConsoleError (log_cross @ '' Failed to send to '' @ notifier_name (notifier c) @ '':'')],
                Inr ())
           | Inr v \<Rightarrow>
               ([BuildPayloadCall (webhookUrlKey c) data, SendCall (webhookUrlKey c) u p,
                 ConsoleLog (log_tick @ '' Sent notification to '' @ notifier_name (notifier c))],
                Inr ())))"
  by (simp add: notifyOne_def notifyTry_def split: sum.splits)

lemma notifyOne_returns: "snd (notifyOne c u data) = Inr ()"
  by (simp add: notifyOne_cases split: sum.splits)



lemma notifyOne_acks: "acksOf (fst (notifyOne c u data)) = []"
  by (simp add: notifyOne_cases acksOf_def split: sum.splits)



lemma startAll_step:
  "startAll (c # cs) data env =
     (if configured env c then [notifyOne c (the (env (webhookUrlKey c))) data] else [])
     @ startAll cs data env"
  by (simp add: configured_def truthy_def split: option.splits)

lemma startAll_returns: "list_all (\<lambda>r. snd r = Inr ()) (startAll reg data env)"
  by (induction reg) (simp_all add: startAll_step notifyOne_returns del: startAll.simps(2))

lemma promiseAll_returns: "list_all (\<lambda>r. r = Inr ()) rs \<Longrightarrow> promiseAll rs = Inr ()"
  by (induction rs) auto

lemma sendNotifications_returns: "snd (sendNotifications reg data env) = Inr ()"
proof -
  have "list_all (\<lambda>r. r = Inr ()) (map snd (startAll reg data env))"
    using startAll_returns [of reg data env] by (simp add: list_all_iff)
  then show ?thesis
    by (simp add: sendNotifications_def Let_def promiseAll_returns)
qed



lemma startAll_empty_iff: "startAll reg data env = [] \<longleftrightarrow> list_all (\<lambda>c. \<not> configured env c) reg"
  by (induction reg) (simp_all add: startAll_step del: startAll.simps(2))



text \<open>
  C7. When none of the three webhook URLs is set (absent or empty), \<open>sendNotifications\<close>
  returns normally; all it does is to write the warning to the console: no \<open>buildPayload\<close>
  and no \<open>send\<close> is called, so nothing goes to the network.
\<close>

theorem sendNotifications_nothing_configured:
  assumes "\<not> truthy (env SLACK_WEBHOOK_URL)"
    and "\<not> truthy (env LARK_WEBHOOK_URL)"
    and "\<not> truthy (env DISCORD_WEBHOOK_URL)"
  shows "sendNotifications (NOTIFIERS h fetch lark) data env =
           ([ConsoleWarn ''No notification webhooks configured. Set SLACK_WEBHOOK_URL, LARK_WEBHOOK_URL, or DISCORD_WEBHOOK_URL.''],
            Inr ())
         \<and> notifierCalls (fst (sendNotifications (NOTIFIERS h fetch lark) data env)) = []"
proof -
  have "startAll (NOTIFIERS h fetch lark) data env = []"
    unfolding startAll_empty_iff using assms by (simp add: NOTIFIERS_def configured_def)
  then show ?thesis
    by (simp add: sendNotifications_def notifierCalls_def)
qed

theorem sendNotifications_nothing_configured_witness:
  "\<not> truthy (noWebhookEnv SLACK_WEBHOOK_URL) \<and> \<not> truthy (noWebhookEnv LARK_WEBHOOK_URL)
   \<and> \<not> truthy (noWebhookEnv DISCORD_WEBHOOK_URL)
   \<and> sendNotifications (NOTIFIERS exampleHelpers slackDown (someLark slackDown))
        \<lparr> event = succeededEvent, previewUrl = None, liveUrl = None, logs = [] \<rparr> noWebhookEnv =
        ([ConsoleWarn ''No notification webhooks configured. Set SLACK_WEBHOOK_URL, LARK_WEBHOOK_URL, or DISCORD_WEBHOOK_URL.''],
         Inr ())"
proof -
  have a: "\<not> truthy (noWebhookEnv SLACK_WEBHOOK_URL)"
    and b: "\<not> truthy (noWebhookEnv LARK_WEBHOOK_URL)"
    and c: "\<not> truthy (noWebhookEnv DISCORD_WEBHOOK_URL)"
    by (simp_all add: noWebhookEnv_def truthy_def)
  from sendNotifications_nothing_configured [OF a b c] a b c show ?thesis by simp
qed




section \<open>The queue handler\<close>

lemma acksOf_app: "acksOf [] = []" "acksOf (xs @ ys) = acksOf xs @ acksOf ys"
  by (simp_all add: acksOf_def)



lemma startAll_acks: "acksOf (concat (map fst (startAll reg data env))) = []"
proof (induction reg)
  case Nil
  show ?case by (simp add: acksOf_def)
next
  case (Cons c cs)
  show ?case
    using Cons by (simp add: startAll_step acksOf_app notifyOne_acks del: startAll.simps(2))
qed



lemma sendNotifications_acks: "acksOf (fst (sendNotifications reg data env)) = []"
  by (simp add: sendNotifications_def Let_def startAll_acks) (simp add: acksOf_def)



lemma notifyAndAck_eq:
  "notifyAndAck reg env m done data =
     (done @ fst (sendNotifications reg data env) @ [Ack (msg_id m)], Inr ())"
proof (cases "sendNotifications reg data env")
  case (Pair effs r)
  with sendNotifications_returns [of reg data env] have "r = Inr ()" by simp
  with Pair show ?thesis by (simp add: notifyAndAck_def)
qed
lemma acksOf_Cons: "acksOf (e # es) = (case e of Ack i \<Rightarrow> [i] | _ \<Rightarrow> []) @ acksOf es"
  by (simp add: acksOf_def)



lemma processMessage_acks:
  "acksOf (fst (processMessage h api reg env m)) =
     (case snd (processMessage h api reg env m) of Inl e \<Rightarrow> [] | Inr u \<Rightarrow> [msg_id m])"
  by (simp add: processMessage_def notifyAndAck_eq invalidEvent_def Let_def
        acksOf_app acksOf_Cons sendNotifications_acks
      split: option.splits sum.splits prod.splits)

lemma handleMessage_returns: "snd (handleMessage h api reg env m) = Inr ()"
  by (cases "processMessage h api reg env m") (simp add: handleMessage_def split: sum.splits)

lemma handleMessage_acks: "acksOf (fst (handleMessage h api reg env m)) = [msg_id m]"
proof (cases "processMessage h api reg env m")
  case (Pair effs r)
  with processMessage_acks [of h api reg env m]
  have "acksOf effs = (case r of Inl e \<Rightarrow> [] | Inr u \<Rightarrow> [msg_id m])" by simp
  with Pair show ?thesis
    by (simp add: handleMessage_def acksOf_app acksOf_Cons split: sum.splits)
qed

lemma forEach_returns:
  "(\<And>m. snd (f m) = Inr ()) \<Longrightarrow>
     snd (forEach f ms) = Inr () \<and> fst (forEach f ms) = concat (map (\<lambda>m. fst (f m)) ms)"
proof (induction ms)
  case Nil
  show ?case by simp
next
  case (Cons m ms)
  obtain effs r where fm: "f m = (effs, r)" by (cases "f m")
  with Cons.prems [of m] have r: "r = Inr ()" by simp
  obtain effs' r' where rest: "forEach f ms = (effs', r')" by (cases "forEach f ms")
  with Cons have "r' = Inr ()" "effs' = concat (map (\<lambda>m. fst (f m)) ms)" by simp_all
  with fm r rest show ?case by simp
qed

lemma acksOf_concat: "acksOf (concat xss) = concat (map acksOf xss)"
  by (induction xss) (simp_all add: acksOf_app)



text \<open>
  C10. For every batch and every environment the queue handler returns normally, and the
  acknowledgements it makes are, in the order of the batch, exactly one for each message:
  this holds whether no webhook is configured, the body of a message is not a valid event,
  the event is a started or queued one, the message is processed to the end, or processing
  it throws.
\<close>

theorem queue_acks_every_message_once:
  "snd (queue h api reg batch env) = Inr ()
   \<and> acksOf (fst (queue h api reg batch env)) = map msg_id batch"
proof (cases "truthy (orElse (orElse (env SLACK_WEBHOOK_URL) (env LARK_WEBHOOK_URL))
                        (env DISCORD_WEBHOOK_URL))")
  case False
  have "snd (forEach (\<lambda>m. ([Ack (msg_id m)], Inr ())) batch) = Inr ()
        \<and> fst (forEach (\<lambda>m. ([Ack (msg_id m)], Inr ())) batch)
            = concat (map (\<lambda>m. fst ([Ack (msg_id m)], Inr () :: error + unit)) batch)"
    by (rule forEach_returns) simp
  moreover have "acksOf (concat (map (\<lambda>m. [Ack (msg_id m)]) batch)) = map msg_id batch"
    by (induction batch) (simp_all add: acksOf_app acksOf_Cons)
  ultimately show ?thesis
    using False
    by (cases "forEach (\<lambda>m. ([Ack (msg_id m)], Inr ())) batch")
       (simp add: queue_def Let_def acksOf_Cons)
next
  case True
  have "snd (forEach (handleMessage h api reg env) batch) = Inr ()
        \<and> fst (forEach (handleMessage h api reg env) batch)
            = concat (map (\<lambda>m. fst (handleMessage h api reg env m)) batch)"
    by (rule forEach_returns) (rule handleMessage_returns)
  moreover have "acksOf (concat (map (\<lambda>m. fst (handleMessage h api reg env m)) batch))
                   = map msg_id batch"
    by (induction batch) (simp_all add: acksOf_app handleMessage_acks)
  ultimately show ?thesis
    using True by (simp add: queue_def Let_def)
qed

theorem queue_acks_every_message_once_witness:
  "snd (queue exampleHelpers someApi (NOTIFIERS exampleHelpers slackDown (someLark slackDown))
          [startedMessage, emptyMessage, failedMessage] threeEnv) = Inr ()
   \<and> acksOf (fst (queue exampleHelpers someApi
                     (NOTIFIERS exampleHelpers slackDown (someLark slackDown))
                     [startedMessage, emptyMessage, failedMessage] threeEnv))
       = [''m1'', ''m2'', ''m3'']"
  using queue_acks_every_message_once
          [of exampleHelpers someApi "NOTIFIERS exampleHelpers slackDown (someLark slackDown)"
              "[startedMessage, emptyMessage, failedMessage]" threeEnv]
  by (simp add: startedMessage_def emptyMessage_def failedMessage_def)











section \<open>The payload builders\<close>

lemma stoppedOrEventTime_wf:
  "payload ev = Some p \<Longrightarrow> metadata ev = Some md \<Longrightarrow>
     stoppedOrEventTime ev = Inr (orDefault (stoppedAt p) (eventTimestamp md))"
  by (simp add: stoppedOrEventTime_def orDefault_def split: option.splits)

lemma buttonsOf_simps:
  "buttonsOf \<lparr> blocks = [] \<rparr> = []"
  "buttonsOf \<lparr> blocks = SectionBlock t None # bs \<rparr> = buttonsOf \<lparr> blocks = bs \<rparr>"
  "buttonsOf \<lparr> blocks = SectionBlock t (Some b) # bs \<rparr> = b # buttonsOf \<lparr> blocks = bs \<rparr>"
  "buttonsOf \<lparr> blocks = ContextBlock es # bs \<rparr> = buttonsOf \<lparr> blocks = bs \<rparr>"
  "buttonsOf \<lparr> blocks = bs @ cs \<rparr> = buttonsOf \<lparr> blocks = bs \<rparr> @ buttonsOf \<lparr> blocks = cs \<rparr>"
  by (simp_all add: buttonsOf_def)

lemma buttonsOf_withContext: "buttonsOf \<lparr> blocks = withContext h ev \<rparr> = []"
  by (simp add: withContext_def buildContextBlock_def buttonsOf_def Let_def)

lemma buildSectionBlock_buttons:
  "buttonsOf \<lparr> blocks = buildSectionBlock t bt bu bs # rest \<rparr> =
     (if truthy bt \<and> truthy bu
      then [Button (the bt) (the bu) (if truthy bs then bs else None)] else [])
     @ buttonsOf \<lparr> blocks = rest \<rparr>"
  by (simp add: buildSectionBlock_def buttonsOf_def truthy_def split: option.splits)

lemma Slack_buildPayload_cases:
  "Slack_buildPayload h data =
     Inr (Slack_message
           (kindOf (getBuildStatus h (event data))) h data)"
  by (simp add: Slack_buildPayload_def Slack_message_def kindOf_def Let_def)

lemma Discord_buildPayload_cases:
  "Discord_buildPayload h data =
     Discord_message
       (kindOf (getBuildStatus h (event data))) h data"
  by (simp add: Discord_buildPayload_def Discord_message_def kindOf_def Let_def)

lemma Discord_message_wf:
  assumes "payload (event data) = Some p" and "metadata (event data) = Some md"
  shows "\<exists>pd. Discord_message k h data = Inr pd"
  by (cases k)
     (simp_all add: Discord_message_def Discord_buildSuccessMessage_def
        Discord_buildFailureMessage_def Discord_buildCancelledMessage_def
        Discord_buildFallbackMessage_def Let_def stoppedOrEventTime_wf [OF assms] assms)

lemma Slack_no_link_no_button:
  assumes "\<not> truthy (getDashboardUrl h (event data))"
    and "\<not> truthy (previewUrl data)" and "\<not> truthy (liveUrl data)"
  shows "buttonsOf (Slack_message k h data) = []"
  using assms
  by (cases k)
     (simp_all add: Slack_message_def Slack_buildSuccessMessage_def Slack_buildFailureMessage_def
        Slack_buildCancelledMessage_def Slack_buildFallbackMessage_def Let_def
        buildSectionBlock_buttons buttonsOf_simps buttonsOf_withContext orElse_def)

lemma Discord_no_link_no_url:
  assumes "\<not> truthy (getDashboardUrl h (event data))"
    and "\<not> truthy (previewUrl data)" and "\<not> truthy (liveUrl data)"
    and "Discord_message k h data = Inr pd"
  shows "embedUrlsOf pd = []"
  using assms
  by (cases k)
     (auto simp: Discord_message_def Discord_buildSuccessMessage_def Discord_buildFailureMessage_def
        Discord_buildCancelledMessage_def Discord_buildFallbackMessage_def Let_def
        embedUrlsOf_def orElse_def split: sum.splits option.splits)

lemma no_trigger_metadata:
  assumes "triggerMeta ev = None"
  shows "buildContextElements h ev = pushIf (extractAuthorName h None) (\<lambda>a. ''*Author:* '' @ a)"
    and "buildMetadataFields h ev =
           pushIf (extractAuthorName h None) (\<lambda>a. \<lparr> name = ''Author'', val = a, inline = True \<rparr>)"
  using assms
  by (simp_all add: buildContextElements_def buildMetadataFields_def Let_def pushIf_def)

text \<open>
  C9. For data whose event has a payload and metadata, the \<open>buildPayload\<close> of Slack and the
  one of Discord return a payload and do not throw, whatever else is missing. Missing parts
  are left out: without \<open>buildTriggerMetadata\<close> there is no branch and no commit entry
  (the author entry is there only if \<open>extractAuthorName\<close> makes a name out of nothing), and
  without a preview, live or dashboard URL the Slack message has no button and the Discord
  embed has no URL.
\<close>

theorem buildPayload_never_throws:
  assumes "payload (event data) \<noteq> None" and "metadata (event data) \<noteq> None"
  shows "\<exists>ps pd. Slack_buildPayload h data = Inr ps \<and> Discord_buildPayload h data = Inr pd
          \<and> (triggerMeta (event data) = None \<longrightarrow>
               buildContextElements h (event data) =
                 pushIf (extractAuthorName h None) (\<lambda>a. ''*Author:* '' @ a)
               \<and> buildMetadataFields h (event data) =
                 pushIf (extractAuthorName h None)
                   (\<lambda>a. \<lparr> name = ''Author'', val = a, inline = True \<rparr>))
          \<and> (\<not> truthy (getDashboardUrl h (event data)) \<and> \<not> truthy (previewUrl data)
               \<and> \<not> truthy (liveUrl data) \<longrightarrow>
               buttonsOf ps = [] \<and> embedUrlsOf pd = [])"
proof -
  from assms obtain p md where wf: "payload (event data) = Some p" "metadata (event data) = Some md"
    by auto
  let ?k = "kindOf (getBuildStatus h (event data))"
  from Discord_message_wf [OF wf] obtain pd where pd: "Discord_message ?k h data = Inr pd"
    by blast
  have "Slack_buildPayload h data = Inr (Slack_message ?k h data)"
    by (rule Slack_buildPayload_cases)
  moreover have "Discord_buildPayload h data = Inr pd"
    using pd by (simp only: Discord_buildPayload_cases)
  moreover have "triggerMeta (event data) = None \<longrightarrow>
               buildContextElements h (event data) =
                 pushIf (extractAuthorName h None) (\<lambda>a. ''*Author:* '' @ a)
               \<and> buildMetadataFields h (event data) =
                 pushIf (extractAuthorName h None)
                   (\<lambda>a. \<lparr> name = ''Author'', val = a, inline = True \<rparr>)"
    using no_trigger_metadata by blast
  moreover have "\<not> truthy (getDashboardUrl h (event data)) \<and> \<not> truthy (previewUrl data)
               \<and> \<not> truthy (liveUrl data) \<longrightarrow>
               buttonsOf (Slack_message ?k h data) = [] \<and> embedUrlsOf pd = []"
    using Slack_no_link_no_button [of h data ?k] Discord_no_link_no_url [of h data ?k pd] pd
    by blast
  ultimately show ?thesis
    by (intro exI [of _ "Slack_message ?k h data"] exI [of _ pd]) (intro conjI, assumption+)
qed

theorem buildPayload_never_throws_witness:
  "payload (event bareData) \<noteq> None \<and> metadata (event bareData) \<noteq> None
   \<and> triggerMeta (event bareData) = None
   \<and> \<not> truthy (getDashboardUrl noLinkHelpers (event bareData))
   \<and> \<not> truthy (previewUrl bareData) \<and> \<not> truthy (liveUrl bareData)
   \<and> (\<exists>ps pd. Slack_buildPayload noLinkHelpers bareData = Inr ps
               \<and> Discord_buildPayload noLinkHelpers bareData = Inr pd
               \<and> buildContextElements noLinkHelpers (event bareData) = []
               \<and> buildMetadataFields noLinkHelpers (event bareData) = []
               \<and> buttonsOf ps = [] \<and> embedUrlsOf pd = [])"
proof -
  have wf: "payload (event bareData) \<noteq> None" "metadata (event bareData) \<noteq> None"
    by (simp_all add: bareData_def bareEvent_def)
  have none: "triggerMeta (event bareData) = None"
    "\<not> truthy (getDashboardUrl noLinkHelpers (event bareData))"
    "\<not> truthy (previewUrl bareData)" "\<not> truthy (liveUrl bareData)"
    "extractAuthorName noLinkHelpers None = None"
    by (simp_all add: bareData_def bareEvent_def triggerMeta_def noLinkHelpers_def
          exampleHelpers_def truthy_def)
  from buildPayload_never_throws [OF wf, of noLinkHelpers] wf none
  show ?thesis by (simp add: pushIf_def)
qed

text \<open>The hypothesis is needed: without payload and metadata the Discord builder throws.\<close>

lemma Discord_buildPayload_throws:
  assumes "payload (event data) = None" and "metadata (event data) = None"
  shows "\<exists>e. Discord_buildPayload h data = Inl e"
  using assms
  by (simp add: Discord_buildPayload_def Discord_buildSuccessMessage_def
        Discord_buildFailureMessage_def Discord_buildCancelledMessage_def
        Discord_buildFallbackMessage_def stoppedOrEventTime_def Let_def)
lemma metadata_parity:
  "buildContextElements h ev = map slackElement (metadataItems h ev)
   \<and> buildMetadataFields h ev = map discordField (metadataItems h ev)"
  by (simp add: buildContextElements_def buildMetadataFields_def metadataItems_def Let_def
        pushIf_def truthy_def split: option.splits)

lemma fieldsNamed_single:
  "fieldsNamed n \<lparr> embeds = [e] \<rparr> =
     (case embed_fields e of None \<Rightarrow> [] | Some fs \<Rightarrow> filter (\<lambda>f. name f = n) fs)"
  by (simp add: fieldsNamed_def)

lemma no_link_among_metadata:
  "filter (\<lambda>f. name f = ''Logs'') (buildMetadataFields h ev) = []"
  "filter (\<lambda>f. name f = ''Build Details'') (buildMetadataFields h ev) = []"
  by (simp_all add: buildMetadataFields_def Let_def pushIf_def split: option.splits)

lemma success_links_agree:
  assumes "Discord_message Succeeded h data = Inr pd"
  shows "map button_url (buttonsOf (Slack_message Succeeded h data)) = embedUrlsOf pd"
  using assms
  by (auto simp: Discord_message_def Slack_message_def Discord_buildSuccessMessage_def
        Slack_buildSuccessMessage_def Let_def buildSectionBlock_buttons buttonsOf_withContext
        embedUrlsOf_def truthy_def orElse_def
      split: sum.splits option.splits if_splits)

lemma failure_links_agree:
  assumes "Discord_message Failed h data = Inr pd"
  shows "map button_url (buttonsOf (Slack_message Failed h data))
           = pushIf (getDashboardUrl h (event data)) (\<lambda>d. d)
       \<and> map val (fieldsNamed ''Logs'' pd)
           = pushIf (getDashboardUrl h (event data)) (\<lambda>d. ''[View Full Logs]('' @ d @ '')'')"
  using assms
  by (auto simp: Discord_message_def Slack_message_def Discord_buildFailureMessage_def
        Slack_buildFailureMessage_def Let_def buildSectionBlock_buttons buttonsOf_withContext
        buttonsOf_simps fieldsNamed_single no_link_among_metadata pushIf_def truthy_def
      split: sum.splits option.splits if_splits)

lemma cancelled_links_agree:
  assumes "Discord_message Cancelled h data = Inr pd"
  shows "map button_url (buttonsOf (Slack_message Cancelled h data))
           = pushIf (getDashboardUrl h (event data)) (\<lambda>d. d)
       \<and> map val (fieldsNamed ''Build Details'' pd)
           = pushIf (getDashboardUrl h (event data)) (\<lambda>d. ''[View Build]('' @ d @ '')'')"
  using assms
  by (auto simp: Discord_message_def Slack_message_def Discord_buildCancelledMessage_def
        Slack_buildCancelledMessage_def Let_def buildSectionBlock_buttons buttonsOf_withContext
        buttonsOf_simps fieldsNamed_single no_link_among_metadata pushIf_def truthy_def
      split: sum.splits option.splits if_splits)
lemma contextElementsOf_withContext:
  "contextElementsOf \<lparr> blocks = b # withContext h ev @ rest \<rparr> =
     contextElementsOf \<lparr> blocks = [b] \<rparr> @ buildContextElements h ev
     @ contextElementsOf \<lparr> blocks = rest \<rparr>"
  by (simp add: contextElementsOf_def withContext_def buildContextBlock_def Let_def)

lemma contextElementsOf_section:
  "contextElementsOf \<lparr> blocks = [buildSectionBlock t bt bu bs] \<rparr> = []"
  "contextElementsOf \<lparr> blocks = [SectionBlock t a] \<rparr> = []"
  "contextElementsOf \<lparr> blocks = [] \<rparr> = []"
  by (simp_all add: contextElementsOf_def buildSectionBlock_def split: option.splits)

lemma slack_carries_metadata:
  "k \<noteq> Fallback \<Longrightarrow>
     contextElementsOf (Slack_message k h data) = buildContextElements h (event data)"
  using contextElementsOf_withContext [of _ h "event data" "[]"]
        contextElementsOf_withContext [of _ h "event data" "[SectionBlock _ None]"]
  by (cases k)
     (simp_all add: Slack_message_def Slack_buildSuccessMessage_def Slack_buildFailureMessage_def
        Slack_buildCancelledMessage_def Let_def contextElementsOf_section)

lemma discord_carries_metadata:
  "k \<noteq> Fallback \<Longrightarrow> Discord_message k h data = Inr pd \<Longrightarrow>
     \<exists>e rest. embeds pd = [e] \<and> embed_fields e = Some (buildMetadataFields h (event data) @ rest)"
  by (cases k)
     (auto simp: Discord_message_def Discord_buildSuccessMessage_def
        Discord_buildFailureMessage_def Discord_buildCancelledMessage_def Let_def
      split: sum.splits)

text \<open>
  C8. For the same data the Slack and the Discord builder produce a message of the same
  kind, and, unless it is the fallback, both carry the same metadata items: the branch, the
  first seven characters of the commit hash (with the same commit link, if there is one)
  and the display name of the author, each written in the platform's notation. The link of
  the action follows the same rule: for a succeeded build the URL of the Slack button and
  the URL of the Discord embed are the same (live URL, else dashboard, for production;
  preview URL, else dashboard, otherwise), and for a failed or cancelled build both link to
  the dashboard exactly when there is a dashboard URL.
\<close>

theorem platforms_agree:
  "Slack_buildPayload h data = Inr (Slack_message (kindOf (getBuildStatus h (event data))) h data)
   \<and> Discord_buildPayload h data = Discord_message (kindOf (getBuildStatus h (event data))) h data
   \<and> (\<forall>ps pd. Slack_buildPayload h data = Inr ps \<and> Discord_buildPayload h data = Inr pd \<longrightarrow>
         (kindOf (getBuildStatus h (event data)) \<noteq> Fallback \<longrightarrow>
            contextElementsOf ps = map slackElement (metadataItems h (event data))
            \<and> (\<exists>e rest. embeds pd = [e]
                  \<and> embed_fields e = Some (map discordField (metadataItems h (event data)) @ rest)))
       \<and> (kindOf (getBuildStatus h (event data)) = Succeeded \<longrightarrow>
            map button_url (buttonsOf ps) = embedUrlsOf pd)
       \<and> (kindOf (getBuildStatus h (event data)) = Failed \<longrightarrow>
            map button_url (buttonsOf ps) = pushIf (getDashboardUrl h (event data)) (\<lambda>d. d)
            \<and> map val (fieldsNamed ''Logs'' pd)
                = pushIf (getDashboardUrl h (event data)) (\<lambda>d. ''[View Full Logs]('' @ d @ '')''))
       \<and> (kindOf (getBuildStatus h (event data)) = Cancelled \<longrightarrow>
            map button_url (buttonsOf ps) = pushIf (getDashboardUrl h (event data)) (\<lambda>d. d)
            \<and> map val (fieldsNamed ''Build Details'' pd)
                = pushIf (getDashboardUrl h (event data)) (\<lambda>d. ''[View Build]('' @ d @ '')'')))"
proof -
  let ?k = "kindOf (getBuildStatus h (event data))"
  have s: "Slack_buildPayload h data = Inr (Slack_message ?k h data)"
    by (rule Slack_buildPayload_cases)
  have d: "Discord_buildPayload h data = Discord_message ?k h data"
    by (rule Discord_buildPayload_cases)
  have m: "buildContextElements h (event data) = map slackElement (metadataItems h (event data))"
    "buildMetadataFields h (event data) = map discordField (metadataItems h (event data))"
    using metadata_parity [of h "event data"] by simp_all
  show ?thesis
    unfolding s d
    using slack_carries_metadata [of ?k h data] discord_carries_metadata [of ?k h data]
      success_links_agree [of h data] failure_links_agree [of h data]
      cancelled_links_agree [of h data]
    by (auto simp: m)
qed
theorem platforms_agree_witness:
  "kindOf (getBuildStatus exampleHelpers (event okData)) = Succeeded
   \<and> (\<exists>ps pd. Slack_buildPayload exampleHelpers okData = Inr ps
         \<and> Discord_buildPayload exampleHelpers okData = Inr pd
         \<and> contextElementsOf ps
             = [''*Branch:* `main`'', ''*Commit:* `abc123d`'', ''*Author:* developer'']
         \<and> (\<exists>e rest. embeds pd = [e]
               \<and> embed_fields e
                   = Some ([\<lparr> name = ''Branch'', val = ''`main`'', inline = True \<rparr>,
                            \<lparr> name = ''Commit'', val = ''`abc123d`'', inline = True \<rparr>,
                            \<lparr> name = ''Author'', val = ''developer'', inline = True \<rparr>]
                           @ rest))
         \<and> map button_url (buttonsOf ps) = [''https://test-worker.test.workers.dev'']
         \<and> embedUrlsOf pd = [''https://test-worker.test.workers.dev''])"
proof -
  have ev: "event okData = succeededEvent" by (simp add: okData_def)
  have k: "kindOf (getBuildStatus exampleHelpers (event okData)) = Succeeded"
    by (simp add: ev kindOf_def exampleHelpers_def exampleStatus_def Let_def succeededEvent_def)
  have wf: "payload (event okData) = Some \<lparr> buildUuid = ''build-12345678-90ab-cdef-1234-567890abcdef'',
                        status = ''stopped'', buildOutcome = Some ''success'',
                        createdAt = ''2025-05-01T02:48:57.132Z'',
                        stoppedAt = Some ''2025-05-01T02:50:15.132Z'',
                        buildTriggerMetadata = Some mockTrigger \<rparr>"
    "metadata (event okData) = Some mockMetadata"
    by (simp_all add: ev succeededEvent_def)
  from Discord_message_wf [OF wf, of Succeeded exampleHelpers]
  obtain pd where "Discord_message Succeeded exampleHelpers okData = Inr pd" by blast
  with k have pd: "Discord_buildPayload exampleHelpers okData = Inr pd"
    by (simp add: Discord_buildPayload_cases)
  from k have ps: "Slack_buildPayload exampleHelpers okData
                     = Inr (Slack_message Succeeded exampleHelpers okData)"
    by (simp add: Slack_buildPayload_cases)
  have items: "metadataItems exampleHelpers (event okData)
                 = [BranchItem ''main'', CommitItem ''abc123d'' None,
                    AuthorItem ''developer'']"
    by (simp add: ev metadataItems_def triggerMeta_def succeededEvent_def mockTrigger_def
          exampleHelpers_def pushIf_def truthy_def)
  have btn: "map button_url (buttonsOf (Slack_message Succeeded exampleHelpers okData))
               = [''https://test-worker.test.workers.dev'']"
    by (simp add: Slack_message_def Slack_buildSuccessMessage_def Let_def
          buildSectionBlock_buttons buttonsOf_withContext okData_def succeededEvent_def
          triggerMeta_def mockTrigger_def exampleHelpers_def truthy_def orElse_def)
  from platforms_agree [of exampleHelpers okData] k pd ps
  have "contextElementsOf (Slack_message Succeeded exampleHelpers okData)
          = map slackElement (metadataItems exampleHelpers (event okData))
        \<and> (\<exists>e rest. embeds pd = [e]
              \<and> embed_fields e
                  = Some (map discordField (metadataItems exampleHelpers (event okData)) @ rest))
        \<and> map button_url (buttonsOf (Slack_message Succeeded exampleHelpers okData))
            = embedUrlsOf pd"
    by simp
  with k pd ps btn show ?thesis
    by (simp add: items)
qed

text \<open>
  On the code, for every classifier: the builders return the cancelled message exactly for
  a status that is cancelled and neither succeeded nor failed.
\<close>

lemma kindOf_Cancelled_iff:
  "kindOf st = Cancelled \<longleftrightarrow> \<not> isSucceeded st \<and> \<not> isFailed st \<and> isCancelled st"
  by (simp add: kindOf_def)

lemma cancelled_message_needs_not_failed:
  assumes "\<not> isSucceeded (getBuildStatus h (event data))"
    and "\<not> isFailed (getBuildStatus h (event data))"
    and "isCancelled (getBuildStatus h (event data))"
  shows "Slack_buildPayload h data = Inr (Slack_buildCancelledMessage h (event data))"
    and "Discord_buildPayload h data = Discord_buildCancelledMessage h (event data)"
  using assms by (simp_all add: Slack_buildPayload_def Discord_buildPayload_def Let_def)

lemma failed_status_gets_failure_message:
  assumes "\<not> isSucceeded (getBuildStatus h (event data))"
    and "isFailed (getBuildStatus h (event data))"
  shows "Slack_buildPayload h data = Inr (Slack_buildFailureMessage h (event data) (logs data))"
    and "Discord_buildPayload h data = Discord_buildFailureMessage h (event data) (logs data)"
  using assms by (simp_all add: Slack_buildPayload_def Discord_buildPayload_def Let_def)



section \<open>The error extractor\<close>

lemma lastNonEmpty_all_empty: "list_all (\<lambda>l. l = []) lgs \<Longrightarrow> lastNonEmpty lgs = None"
  by (induction lgs) simp_all

lemma lastNonEmpty_last:
  "l \<noteq> [] \<Longrightarrow> list_all (\<lambda>k. k = []) post \<Longrightarrow> lastNonEmpty (pre @ l # post) = Some l"
  by (induction pre) (simp_all add: lastNonEmpty_all_empty)

lemma firstErrorBlock_no_indicator:
  "\<not> list_ex (isErrorIndicator rules) lgs \<Longrightarrow> firstErrorBlock rules lgs = None"
  by (induction lgs) (simp_all add: isErrorMarker_def)

text \<open>
  C5. On the empty sequence the extractor returns the literal "No logs available". On a
  sequence that is not empty and has no line that matches an error-indicator pattern, it
  returns the last line that is not empty, and the same literal if every line is empty.
\<close>

theorem extractBuildError_spec_fallback:
  "extractBuildError_spec rules [] = ''No logs available''
   \<and> (\<not> list_ex (isErrorIndicator rules) (pre @ l # post) \<and> l \<noteq> []
        \<and> list_all (\<lambda>k. k = []) post \<longrightarrow>
        extractBuildError_spec rules (pre @ l # post) = l)
   \<and> (lgs \<noteq> [] \<and> \<not> list_ex (isErrorIndicator rules) lgs \<and> list_all (\<lambda>k. k = []) lgs \<longrightarrow>
        extractBuildError_spec rules lgs = ''No logs available'')"
  by (simp add: extractBuildError_spec_def firstErrorBlock_no_indicator lastNonEmpty_last
        lastNonEmpty_all_empty)

theorem extractBuildError_spec_fallback_witness:
  "\<not> list_ex (isErrorIndicator exampleRules) quietLogs
   \<and> extractBuildError_spec exampleRules [] = ''No logs available''
   \<and> extractBuildError_spec exampleRules quietLogs = ''Build failed''
   \<and> extractBuildError_spec exampleRules [[], []] = ''No logs available''"
proof -
  have q: "quietLogs = [''Installing dependencies...''] @ ''Build failed'' # [[]]"
    by (simp add: quietLogs_def)
  have a: "\<not> list_ex (isErrorIndicator exampleRules) ([''Installing dependencies...''] @ ''Build failed'' # [[]])"
    by (simp add: isErrorIndicator_def exampleRules_def error_glyph_def)
  have b: "\<not> list_ex (isErrorIndicator exampleRules) [[], []]"
    by (simp add: isErrorIndicator_def exampleRules_def error_glyph_def)
  from extractBuildError_spec_fallback
         [of exampleRules "[''Installing dependencies...'']" "''Build failed''" "[[]]" "[[], []]"]
       a b
  show ?thesis by (simp add: q)
qed

end
